theory Spec2Isabelle
  imports Main
begin

section \<open>Data model of TabbyAgent.ts\<close>

text \<open>
  The agent's connectivity status: the four string literals of \<open>AgentStatus\<close> that
  the class assigns and compares (\<open>"notInitialized"\<close>, \<open>"ready"\<close>, \<open>"disconnected"\<close>,
  \<open>"unauthorized"\<close>).
\<close>

datatype AgentStatus = NotInitialized | Ready | Disconnected | Unauthorized

text \<open>
  The configuration, with the three paths the class reads: \<open>config.server.endpoint\<close>,
  \<open>config.logs.level\<close> and \<open>config.anonymousUsageTracking.disable\<close>.
\<close>

record ServerConfig =
  endpoint :: string

record LogsConfig =
  level :: string

record UsageConfig =
  disable :: bool

record AgentConfig =
  server :: ServerConfig
  logs :: LogsConfig
  anonymousUsageTracking :: UsageConfig

text \<open>
  The state of the \<open>Auth\<close> collaborator as the class reads it (\<open>auth.endpoint\<close>,
  \<open>auth.token\<close>, \<open>auth.user\<close>), and the options of a \<open>TabbyApi\<close> client.
\<close>

record Auth =
  auth_endpoint :: string
  token :: "string option"
  user :: "string option"

record TabbyApi =
  BASE :: string
  TOKEN :: "string option"

text \<open>
  A completion request and response. The field \<open>text\<close> of the request is written
  \<open>text'\<close>; \<open>position\<close> is a JavaScript number, used as an index. The field \<open>id\<close> of
  the response is written \<open>id'\<close>.
\<close>

record CompletionRequest =
  text' :: string
  position :: int
  language :: string

type_synonym Choice = string

record CompletionResponse =
  id' :: string
  choices :: "Choice list"

record Segments =
  prefix :: string
  suffix :: string

type_synonym LogEventRequest = string

text \<open>
  What a rejected transport promise carries, as \<open>callApi\<close> inspects it:
  \<open>error.isCancelled\<close> (its truthiness), \<open>error.name\<close> and \<open>error.status\<close> (written
  \<open>error_status\<close>; \<open>None\<close> when the error has no numeric status).
\<close>

record ApiFailure =
  isCancelled :: bool
  name :: string
  error_status :: "int option"

datatype 'r Outcome = Fulfilled 'r | Rejected ApiFailure

text \<open>The three operations of \<open>this.api.v1\<close> that the class calls, with their requests.\<close>

datatype ApiCall =
  Health
  | Completion string Segments "string option"
  | Event LogEventRequest

datatype AgentEvent = StatusChanged AgentStatus | ConfigUpdated AgentConfig

text \<open>
  Everything the class does to the outside is recorded, in order, in a trace: requests
  handed to the transport client, cancellations of them, events emitted to subscribers,
  accesses of the completion cache, and calls on the loggers and on \<open>Auth\<close>. Debug and
  error log lines are not recorded.
\<close>

datatype Effect =
  ApiRequest ApiCall
  | ApiCancel ApiCall
  | Emit AgentEvent
  | CacheHas CompletionRequest
  | CacheGet CompletionRequest
  | CacheSet CompletionRequest CompletionResponse
  | SetLogLevel string
  | SetLogBindings string
  | SetUsageDisabled bool
  | UsageEvent string "string option"
  | AuthCreate string
  | ApiCreate TabbyApi
  | AuthRequestToken
  | AuthReset

subsection \<open>The completion cache\<close>

text \<open>
  Modelled from the spec: the class \<open>CompletionCache\<close> (\<open>./CompletionCache\<close>) is not among
  the sources. The spec describes it as a map from a fingerprint derived from
  (text, position, language) to the last computed response, with entries evicted by a
  time or size policy, "bounded, most-recent-wins". The model keys the entries by the
  request itself, keeps them most recent first and cuts the list at a capacity; eviction
  by age is not modelled.
\<close>

record CompletionCache =
  capacity :: nat
  entries :: "(CompletionRequest \<times> CompletionResponse) list"

definition cache_has :: "CompletionCache \<Rightarrow> CompletionRequest \<Rightarrow> bool" where
  "cache_has c r = (map_of (entries c) r \<noteq> None)"

definition cache_get :: "CompletionCache \<Rightarrow> CompletionRequest \<Rightarrow> CompletionResponse option" where
  "cache_get c r = map_of (entries c) r"

definition cache_set ::
  "CompletionCache \<Rightarrow> CompletionRequest \<Rightarrow> CompletionResponse \<Rightarrow> CompletionCache" where
  "cache_set c r v =
     c\<lparr>entries := take (capacity c) ((r, v) # filter (\<lambda>e. fst e \<noteq> r) (entries c))\<rparr>"

subsection \<open>The agent\<close>

text \<open>
  The fields of the class. \<open>api\<close> and \<open>auth\<close> are unassigned (\<open>None\<close>) until
  \<open>applyConfig\<close> has run; \<open>tryingConnectTimer\<close> holds the period of the interval timer
  set by the constructor, \<open>None\<close> standing for \<open>null\<close>. The loggers and the usage logger
  are collaborators without a field here: what the class does to them is in the trace.
\<close>

record TabbyAgent =
  config :: AgentConfig
  status :: AgentStatus
  api :: "TabbyApi option"
  auth :: "Auth option"
  dataStore :: "string option"
  completionCache :: CompletionCache
  tryingConnectTimer :: "nat option"
  trace :: "Effect list"

definition perform :: "Effect \<Rightarrow> TabbyAgent \<Rightarrow> TabbyAgent" where
  "perform e s = s\<lparr>trace := trace s @ [e]\<rparr>"

definition tryConnectInterval :: nat where
  "tryConnectInterval = 1000 * 30"

section \<open>Status changes and the call wrapper\<close>

text \<open>
  \<open>changeStatus\<close>: assigns the status and emits \<open>"statusChanged"\<close>, only when the status
  differs from the current one.
\<close>

definition changeStatus :: "AgentStatus \<Rightarrow> TabbyAgent \<Rightarrow> TabbyAgent" where
  "changeStatus st s =
     (if status s \<noteq> st then perform (Emit (StatusChanged st)) (s\<lparr>status := st\<rparr>) else s)"

text \<open>
  \<open>callApi\<close> in two steps, since the agent gives up control between them. Issuing hands
  the request to the transport client. Settling is the \<open>then\<close> or \<open>catch\<close> handler of the
  promise: on a response the status becomes ready and the response is passed on; on a
  rejection the four branches of the handler run in the order of the source, and the
  error is thrown again (\<open>Inl\<close>).
\<close>

definition callApi_issue :: "ApiCall \<Rightarrow> TabbyAgent \<Rightarrow> TabbyAgent" where
  "callApi_issue call s = perform (ApiRequest call) s"

definition callApi_settle :: "'r Outcome \<Rightarrow> TabbyAgent \<Rightarrow> (ApiFailure + 'r) \<times> TabbyAgent" where
  "callApi_settle outcome s =
     (case outcome of
        Fulfilled response \<Rightarrow> (Inr response, changeStatus Ready s)
      | Rejected error \<Rightarrow>
          (Inl error,
           if isCancelled error then s
           else if name error = ''ApiError'' \<and> error_status error \<in> set [Some 401, Some 403, Some 405]
             then changeStatus Unauthorized s
           else if name error = ''ApiError'' then changeStatus Disconnected s
           else changeStatus Disconnected s))"

text \<open>The whole call, for the places that await it: issued, then settled.\<close>

definition callApi :: "ApiCall \<Rightarrow> 'r Outcome \<Rightarrow> TabbyAgent \<Rightarrow> (ApiFailure + 'r) \<times> TabbyAgent" where
  "callApi call outcome s = callApi_settle outcome (callApi_issue call s)"

text \<open>
  \<open>healthCheck\<close>: the wrapper on the health operation, with \<open>.catch(() => {})\<close>: a
  rejection becomes a fulfilled promise of \<open>undefined\<close> (\<open>None\<close>).
\<close>

definition healthCheck :: "'r Outcome \<Rightarrow> TabbyAgent \<Rightarrow> (ApiFailure + 'r option) \<times> TabbyAgent" where
  "healthCheck outcome s =
     (case callApi Health outcome s of
        (Inr response, s') \<Rightarrow> (Inr (Some response), s')
      | (Inl error, s') \<Rightarrow> (Inr None, s'))"

section \<open>Context windowing\<close>

text \<open>
  \<open>String.prototype.slice\<close> and \<open>Array.prototype.slice\<close> on integer arguments: a
  negative index counts from the end, both indices are clamped to the length, and an
  empty range gives the empty result. \<open>slice_from\<close> is the call with one argument.
\<close>

definition slice :: "int \<Rightarrow> int \<Rightarrow> 'a list \<Rightarrow> 'a list" where
  "slice start fin xs =
     (let len = int (length xs);
          k = (if start < 0 then max (len + start) 0 else min start len);
          final = (if fin < 0 then max (len + fin) 0 else min fin len)
      in take (nat (final - k)) (drop (nat k) xs))"

definition slice_from :: "int \<Rightarrow> 'a list \<Rightarrow> 'a list" where
  "slice_from start xs = slice start (int (length xs)) xs"

text \<open>
  Modelled from the spec: \<open>splitLines\<close> (\<open>./utils\<close>) is not among the sources. The spec
  says that line splitting preserves line-ending characters, so that segments can be
  concatenated losslessly: a line ends after each line feed, which stays at the end of
  its line, and the text after the last line feed, when there is any, is the last line.
\<close>

fun splitLines :: "string \<Rightarrow> string list" where
  "splitLines [] = []"
| "splitLines (c # cs) =
     (if c = CHR 0x0A then [c] # splitLines cs
      else (case splitLines cs of
              [] \<Rightarrow> [[c]]
            | l # ls \<Rightarrow> (c # l) # ls))"

text \<open>
  Modelled from the spec: \<open>isBlank\<close> (\<open>./utils\<close>) is not among the sources. The spec
  calls a string blank when it is empty or holds only whitespace; whitespace is taken to
  be space, tab, line feed, vertical tab, form feed and carriage return.
\<close>

definition isWhitespace :: "char \<Rightarrow> bool" where
  "isWhitespace c = (c \<in> set [CHR '' '', CHR 0x09, CHR 0x0A, CHR 0x0B, CHR 0x0C, CHR 0x0D])"

definition isBlank :: "string \<Rightarrow> bool" where
  "isBlank input = list_all isWhitespace input"

definition maxLines :: int where
  "maxLines = 20"

text \<open>
  \<open>createSegments\<close>: the text before and after the cursor, each cut into lines, of which
  the last \<open>maxLines\<close> before and the first \<open>maxLines\<close> after are joined again.
\<close>

definition createSegments :: "CompletionRequest \<Rightarrow> Segments" where
  "createSegments request =
     (let prefixText = slice 0 (position request) (text' request);
          prefixLines = splitLines prefixText;
          suffixText = slice_from (position request) (text' request);
          suffixLines = splitLines suffixText
      in \<lparr>prefix = concat (slice_from (max (int (length prefixLines) - maxLines) 0) prefixLines),
          suffix = concat (slice 0 maxLines suffixLines)\<rparr>)"

section \<open>Configuration\<close>

text \<open>
  \<open>applyConfig\<close>. \<open>authCreate\<close> stands for \<open>Auth.create\<close> at the agent's data store: the
  session it resolves to for an endpoint. The comparison with \<open>this.auth?.endpoint\<close> is
  with \<open>undefined\<close> while no session exists, so the first run always creates one
  (\<open>AuthCreate\<close> in the trace stands for the creation and the subscription to the
  session's \<open>"updated"\<close> notification); the client is then built from the endpoint and
  the session's token.
\<close>

definition applyConfig :: "(string \<Rightarrow> Auth) \<Rightarrow> TabbyAgent \<Rightarrow> TabbyAgent" where
  "applyConfig authCreate s =
     (let s1 = perform (SetLogLevel (level (logs (config s)))) s;
          s2 = perform (SetUsageDisabled (disable (anonymousUsageTracking (config s1)))) s1;
          s3 = (if Some (endpoint (server (config s2))) \<noteq> map_option auth_endpoint (auth s2)
                then perform (AuthCreate (endpoint (server (config s2))))
                       (s2\<lparr>auth := Some (authCreate (endpoint (server (config s2))))\<rparr>)
                else s2);
          client = \<lparr>BASE = endpoint (server (config s3)),
                    TOKEN = (case auth s3 of None \<Rightarrow> None | Some a \<Rightarrow> token a)\<rparr>
      in perform (ApiCreate client) (s3\<lparr>api := Some client\<rparr>))"

text \<open>
  The constructor and \<open>create\<close>. \<open>defaultAgentConfig\<close> (\<open>./AgentConfig\<close>) and the bound of
  a new completion cache are not among the sources and are parameters. The constructor
  sets the interval timer, whose callback is \<open>tick\<close> below. \<open>create\<close> also builds the
  usage logger, which the model shows only through its entries in the trace.
\<close>

definition new_TabbyAgent :: "AgentConfig \<Rightarrow> nat \<Rightarrow> TabbyAgent" where
  "new_TabbyAgent defaultAgentConfig cap =
     \<lparr>config = defaultAgentConfig, status = NotInitialized, api = None, auth = None,
      dataStore = None, completionCache = \<lparr>capacity = cap, entries = []\<rparr>,
      tryingConnectTimer = Some tryConnectInterval, trace = []\<rparr>"

definition create :: "AgentConfig \<Rightarrow> nat \<Rightarrow> (string \<Rightarrow> Auth) \<Rightarrow> string option \<Rightarrow> TabbyAgent" where
  "create defaultAgentConfig cap authCreate store =
     applyConfig authCreate ((new_TabbyAgent defaultAgentConfig cap)\<lparr>dataStore := store\<rparr>)"

text \<open>
  \<open>updateConfig\<close>. \<open>deepMerge\<close> and \<open>deepEqual\<close> are the two library functions the
  method imports (packages \<open>deepmerge\<close> and \<open>deep-equal\<close>), taken as parameters;
  \<open>outcome\<close> is how the health request of the final probe settles. The result is the
  returned boolean and the agent afterwards.
\<close>

definition updateConfig ::
  "(AgentConfig \<Rightarrow> 'p \<Rightarrow> AgentConfig) \<Rightarrow> (AgentConfig \<Rightarrow> AgentConfig \<Rightarrow> bool) \<Rightarrow>
   (string \<Rightarrow> Auth) \<Rightarrow> 'p \<Rightarrow> 'r Outcome \<Rightarrow> TabbyAgent \<Rightarrow> bool \<times> TabbyAgent" where
  "updateConfig deepMerge deepEqual authCreate partial outcome s =
     (let mergedConfig = deepMerge (config s) partial;
          s1 = (if \<not> deepEqual (config s) mergedConfig
                then (let applied = applyConfig authCreate (s\<lparr>config := mergedConfig\<rparr>)
                      in perform (Emit (ConfigUpdated (config applied))) applied)
                else s);
          s2 = snd (healthCheck outcome s1)
      in (status s2 \<noteq> NotInitialized, s2))"

text \<open>
  \<open>initialize\<close>. The two optional fields are tested for truthiness: a client that is
  the empty string counts as absent, a config object always counts as present.
\<close>

record 'p AgentInitOptions =
  client :: "string option"
  config' :: "'p option"

definition initialize ::
  "(AgentConfig \<Rightarrow> 'p \<Rightarrow> AgentConfig) \<Rightarrow> (AgentConfig \<Rightarrow> AgentConfig \<Rightarrow> bool) \<Rightarrow>
   (string \<Rightarrow> Auth) \<Rightarrow> 'p AgentInitOptions \<Rightarrow> 'r Outcome \<Rightarrow> TabbyAgent \<Rightarrow> bool \<times> TabbyAgent" where
  "initialize deepMerge deepEqual authCreate options outcome s =
     (let s1 = (case client options of
                  None \<Rightarrow> s
                | Some c \<Rightarrow> if c \<noteq> [] then perform (SetLogBindings c) s else s);
          s2 = (case config' options of
                  None \<Rightarrow> s1
                | Some partial \<Rightarrow> snd (updateConfig deepMerge deepEqual authCreate partial outcome s1));
          s3 = perform (UsageEvent ''AgentInitialized'' (client options)) s2
      in (status s3 \<noteq> NotInitialized, s3))"

definition getConfig :: "TabbyAgent \<Rightarrow> AgentConfig" where
  "getConfig s = config s"

definition getStatus :: "TabbyAgent \<Rightarrow> AgentStatus" where
  "getStatus s = status s"

section \<open>Background probing and authentication\<close>

text \<open>
  The callback of the interval timer: a health probe when the agent is disconnected,
  nothing otherwise. The result is what the callback's promise settles to.
\<close>

definition tick :: "'r Outcome \<Rightarrow> TabbyAgent \<Rightarrow> (ApiFailure + unit) \<times> TabbyAgent" where
  "tick outcome s =
     (if status s = Disconnected
      then (case healthCheck outcome s of
              (Inl error, s') \<Rightarrow> (Inl error, s')
            | (Inr _, s') \<Rightarrow> (Inr (), s'))
      else (Inr (), s))"

text \<open>\<open>onAuthUpdated\<close>: the client is built again from the session's token, then a probe.\<close>

definition onAuthUpdated :: "'r Outcome \<Rightarrow> TabbyAgent \<Rightarrow> TabbyAgent" where
  "onAuthUpdated outcome s =
     (let client = \<lparr>BASE = endpoint (server (config s)),
                    TOKEN = (case auth s of None \<Rightarrow> None | Some a \<Rightarrow> token a)\<rparr>
      in snd (healthCheck outcome (perform (ApiCreate client) (s\<lparr>api := Some client\<rparr>))))"

text \<open>
  \<open>startAuth\<close>: a probe, then a token request when the agent is unauthorized
  (\<open>requested\<close> is what \<open>auth.requestToken()\<close> resolves to), and its cancel callback.
\<close>

definition startAuth :: "'r Outcome \<Rightarrow> string option \<Rightarrow> TabbyAgent \<Rightarrow> string option \<times> TabbyAgent" where
  "startAuth outcome requested s =
     (let s1 = snd (healthCheck outcome s)
      in if status s1 = Unauthorized then (requested, perform AuthRequestToken s1)
         else (None, s1))"

definition startAuth_cancel :: "TabbyAgent \<Rightarrow> TabbyAgent" where
  "startAuth_cancel s = (if status s = Unauthorized then perform AuthReset s else s)"

section \<open>Completions and events\<close>

text \<open>
  What a method throws or rejects with: \<open>new Error(message)\<close>, or the transport's
  rejection passed on.
\<close>

datatype Thrown = Error string | Rejection ApiFailure

text \<open>
  The promise \<open>getCompletions\<close> returns: either one that its executor has already
  resolved, built with no cancel callback, or the wrapper around a request in flight,
  whose cancel callback cancels that request.
\<close>

datatype Handle = Immediate "CompletionResponse option" | InFlight ApiCall

text \<open>
  Modelled from the spec: \<open>CancelablePromise\<close> (\<open>./generated\<close>) and \<open>cancelable\<close>
  (\<open>./utils\<close>) are not among the sources. The spec describes a handle that holds a
  computation and an explicit cancel callback; cancelling runs the callback, and
  cancelling a result that is already there is a no-op, since there is nothing to abort.
\<close>

definition cancel :: "Handle \<Rightarrow> TabbyAgent \<Rightarrow> TabbyAgent" where
  "cancel h s = (case h of Immediate _ \<Rightarrow> s | InFlight call \<Rightarrow> perform (ApiCancel call) s)"

text \<open>
  \<open>getCompletions\<close> up to the point where it returns. \<open>uuid\<close> is the string the
  generator \<open>uuid()\<close> gives when it is called.
\<close>

definition getCompletions :: "string \<Rightarrow> CompletionRequest \<Rightarrow> TabbyAgent \<Rightarrow> (Thrown + Handle) \<times> TabbyAgent" where
  "getCompletions uuid request s =
     (if status s = NotInitialized then (Inl (Error ''Agent is not initialized''), s)
      else
        let s1 = perform (CacheHas request) s in
        if cache_has (completionCache s1) request
        then (Inr (Immediate (cache_get (completionCache s1) request)), perform (CacheGet request) s1)
        else
          let segments = createSegments request in
          if isBlank (prefix segments)
          then (Inr (Immediate (Some \<lparr>id' = ''agent-'' @ uuid, choices = []\<rparr>)), s1)
          else
            let call = Completion (language request) segments
                         (case auth s1 of None \<Rightarrow> None | Some a \<Rightarrow> user a)
            in (Inr (InFlight call), callApi_issue call s1))"

text \<open>
  The continuation of a request in flight, once the transport settles it: the wrapper's
  handler, then \<open>postprocess\<close> (\<open>./postprocess\<close>, a parameter) and the store into the
  cache. A rejection skips both.
\<close>

definition getCompletions_settle ::
  "(CompletionRequest \<Rightarrow> CompletionResponse \<Rightarrow> CompletionResponse) \<Rightarrow> CompletionRequest \<Rightarrow>
   CompletionResponse Outcome \<Rightarrow> TabbyAgent \<Rightarrow> (Thrown + CompletionResponse) \<times> TabbyAgent" where
  "getCompletions_settle postprocess request outcome s =
     (case callApi_settle outcome s of
        (Inl error, s') \<Rightarrow> (Inl (Rejection error), s')
      | (Inr response, s') \<Rightarrow>
          (let processed = postprocess request response
           in (Inr processed,
               perform (CacheSet request processed)
                 (s'\<lparr>completionCache := cache_set (completionCache s') request processed\<rparr>))))"

definition postEvent :: "LogEventRequest \<Rightarrow> bool Outcome \<Rightarrow> TabbyAgent \<Rightarrow> (Thrown + bool) \<times> TabbyAgent" where
  "postEvent request outcome s =
     (if status s = NotInitialized then (Inl (Error ''Agent is not initialized''), s)
      else (case callApi (Event request) outcome s of
              (Inl error, s') \<Rightarrow> (Inl (Rejection error), s')
            | (Inr response, s') \<Rightarrow> (Inr response, s')))"

section \<open>Runs of the agent\<close>

text \<open>
  Everything that can happen to an agent once \<open>create\<close> has returned it: a call of a
  public method, the continuation or the cancellation of a completion request in
  flight, a tick of the interval timer, and the \<open>"updated"\<close> notification of \<open>Auth\<close>
  (the session's token and user changed, then \<open>onAuthUpdated\<close>). Each operation carries
  what the outside contributes to it. A run applies a list of operations in order.
\<close>

datatype 'p Operation =
  Initialize "'p AgentInitOptions" "unit Outcome"
  | UpdateConfig 'p "unit Outcome"
  | GetConfig
  | GetStatus
  | StartAuth "unit Outcome" "string option"
  | StartAuthCancel
  | GetCompletions string CompletionRequest
  | SettleCompletion CompletionRequest "CompletionResponse Outcome"
  | Cancel Handle
  | PostEvent LogEventRequest "bool Outcome"
  | TimerTick "unit Outcome"
  | AuthUpdated "string option" "string option" "unit Outcome"

definition step ::
  "(AgentConfig \<Rightarrow> 'p \<Rightarrow> AgentConfig) \<Rightarrow> (AgentConfig \<Rightarrow> AgentConfig \<Rightarrow> bool) \<Rightarrow>
   (string \<Rightarrow> Auth) \<Rightarrow> (CompletionRequest \<Rightarrow> CompletionResponse \<Rightarrow> CompletionResponse) \<Rightarrow>
   'p Operation \<Rightarrow> TabbyAgent \<Rightarrow> TabbyAgent" where
  "step deepMerge deepEqual authCreate postprocess operation s =
     (case operation of
        Initialize options outcome \<Rightarrow> snd (initialize deepMerge deepEqual authCreate options outcome s)
      | UpdateConfig partial outcome \<Rightarrow> snd (updateConfig deepMerge deepEqual authCreate partial outcome s)
      | GetConfig \<Rightarrow> s
      | GetStatus \<Rightarrow> s
      | StartAuth outcome requested \<Rightarrow> snd (startAuth outcome requested s)
      | StartAuthCancel \<Rightarrow> startAuth_cancel s
      | GetCompletions uuid request \<Rightarrow> snd (getCompletions uuid request s)
      | SettleCompletion request outcome \<Rightarrow> snd (getCompletions_settle postprocess request outcome s)
      | Cancel h \<Rightarrow> cancel h s
      | PostEvent request outcome \<Rightarrow> snd (postEvent request outcome s)
      | TimerTick outcome \<Rightarrow> snd (tick outcome s)
      | AuthUpdated tok usr outcome \<Rightarrow>
          onAuthUpdated outcome (s\<lparr>auth := map_option (\<lambda>a. a\<lparr>token := tok, user := usr\<rparr>) (auth s)\<rparr>))"

fun run ::
  "(AgentConfig \<Rightarrow> 'p \<Rightarrow> AgentConfig) \<Rightarrow> (AgentConfig \<Rightarrow> AgentConfig \<Rightarrow> bool) \<Rightarrow>
   (string \<Rightarrow> Auth) \<Rightarrow> (CompletionRequest \<Rightarrow> CompletionResponse \<Rightarrow> CompletionResponse) \<Rightarrow>
   'p Operation list \<Rightarrow> TabbyAgent \<Rightarrow> TabbyAgent" where
  "run deepMerge deepEqual authCreate postprocess [] s = s"
| "run deepMerge deepEqual authCreate postprocess (operation # rest) s =
     run deepMerge deepEqual authCreate postprocess rest
       (step deepMerge deepEqual authCreate postprocess operation s)"

section \<open>Concrete inputs\<close>

text \<open>
  A configuration, an \<open>Auth.create\<close> that finds no stored token, and the agent that
  \<open>create\<close> returns for them, used where a statement is evaluated on an input. The
  partial configuration of these inputs may name a new endpoint; \<open>mergeEndpoint\<close> and
  equality stand for the two library functions on it.
\<close>

definition exampleConfig :: AgentConfig where
  "exampleConfig =
     \<lparr>server = \<lparr>endpoint = ''http://localhost:8080''\<rparr>, logs = \<lparr>level = ''silent''\<rparr>,
      anonymousUsageTracking = \<lparr>disable = False\<rparr>\<rparr>"

definition exampleAuthCreate :: "string \<Rightarrow> Auth" where
  "exampleAuthCreate e = \<lparr>auth_endpoint = e, token = None, user = None\<rparr>"

definition exampleAgent :: TabbyAgent where
  "exampleAgent = create exampleConfig 100 exampleAuthCreate None"

definition mergeEndpoint :: "AgentConfig \<Rightarrow> string option \<Rightarrow> AgentConfig" where
  "mergeEndpoint c partial =
     (case partial of None \<Rightarrow> c | Some e \<Rightarrow> c\<lparr>server := \<lparr>endpoint = e\<rparr>\<rparr>)"

definition cancelError :: ApiFailure where
  "cancelError = \<lparr>isCancelled = True, name = ''CancelError'', error_status = None\<rparr>"

definition apiError :: "int \<Rightarrow> ApiFailure" where
  "apiError code = \<lparr>isCancelled = False, name = ''ApiError'', error_status = Some code\<rparr>"

definition networkError :: ApiFailure where
  "networkError = \<lparr>isCancelled = False, name = ''Error'', error_status = None\<rparr>"

text \<open>
  Requests: a short one, one whose text before the cursor is blank, and one with 23
  lines on each side of the cursor; a response; an agent that has left NotInitialized,
  and the agents after a request for the short text has been issued and has succeeded.
\<close>

definition exampleRequest :: CompletionRequest where
  "exampleRequest = \<lparr>text' = ''def f():'', position = 8, language = ''python''\<rparr>"

definition blankRequest :: CompletionRequest where
  "blankRequest = \<lparr>text' = [CHR '' '', CHR 0x0A, CHR 0x09, CHR '' ''] @ ''x = 1'', position = 4, language = ''python''\<rparr>"

definition longRequest :: CompletionRequest where
  "longRequest =
     \<lparr>text' = concat (replicate 22 [CHR ''a'', CHR 0x0A]) @ ''bc'' @ concat (replicate 22 [CHR 0x0A, CHR ''d'']),
      position = 45, language = ''text''\<rparr>"

definition exampleResponse :: CompletionResponse where
  "exampleResponse = \<lparr>id' = ''cmpl-1'', choices = [''pass'']\<rparr>"

definition readyAgent :: TabbyAgent where
  "readyAgent = exampleAgent\<lparr>status := Ready\<rparr>"

definition inFlightAgent :: TabbyAgent where
  "inFlightAgent = snd (getCompletions ''0000'' exampleRequest readyAgent)"

definition cachedAgent :: TabbyAgent where
  "cachedAgent = snd (getCompletions_settle (\<lambda>request response. response) exampleRequest (Fulfilled exampleResponse) inFlightAgent)"

text \<open>A run in which every operation occurs.\<close>

definition exampleRun :: "string option Operation list" where
  "exampleRun =
     [Initialize \<lparr>client = Some ''vim'', config' = Some (Some ''http://example.org'')\<rparr> (Rejected networkError),
      TimerTick (Fulfilled ()), GetStatus, GetConfig,
      GetCompletions ''0000'' exampleRequest,
      Cancel (InFlight (Completion ''python'' (createSegments exampleRequest) None)),
      SettleCompletion exampleRequest (Rejected cancelError),
      PostEvent ''view'' (Fulfilled True),
      UpdateConfig None (Rejected (apiError 401)),
      StartAuth (Rejected (apiError 401)) (Some ''http://example.org/auth''), StartAuthCancel,
      AuthUpdated (Some ''secret'') (Some ''someone'') (Fulfilled ())]"

section \<open>Properties\<close>

subsection \<open>Fields under the basic steps\<close>

lemma perform_fields [simp]:
  "config (perform e s) = config s"
  "status (perform e s) = status s"
  "api (perform e s) = api s"
  "auth (perform e s) = auth s"
  "dataStore (perform e s) = dataStore s"
  "completionCache (perform e s) = completionCache s"
  "tryingConnectTimer (perform e s) = tryingConnectTimer s"
  "trace (perform e s) = trace s @ [e]"
  by (simp_all add: perform_def)

lemma changeStatus_fields [simp]:
  "config (changeStatus st s) = config s"
  "status (changeStatus st s) = st"
  "api (changeStatus st s) = api s"
  "auth (changeStatus st s) = auth s"
  "dataStore (changeStatus st s) = dataStore s"
  "completionCache (changeStatus st s) = completionCache s"
  "tryingConnectTimer (changeStatus st s) = tryingConnectTimer s"
  by (simp_all add: changeStatus_def)

lemma trace_changeStatus:
  "trace (changeStatus st s) = trace s @ (if status s = st then [] else [Emit (StatusChanged st)])"
  by (simp add: changeStatus_def)

lemma changeStatus_same [simp]: "changeStatus (status s) s = s"
  by (simp add: changeStatus_def)

lemma exampleAgent_eq:
  "exampleAgent =
     \<lparr>config = exampleConfig, status = NotInitialized,
      api = Some \<lparr>BASE = ''http://localhost:8080'', TOKEN = None\<rparr>,
      auth = Some \<lparr>auth_endpoint = ''http://localhost:8080'', token = None, user = None\<rparr>,
      dataStore = None, completionCache = \<lparr>capacity = 100, entries = []\<rparr>,
      tryingConnectTimer = Some 30000,
      trace = [SetLogLevel ''silent'', SetUsageDisabled False,
               AuthCreate ''http://localhost:8080'',
               ApiCreate \<lparr>BASE = ''http://localhost:8080'', TOKEN = None\<rparr>]\<rparr>"
  by (simp add: exampleAgent_def create_def new_TabbyAgent_def applyConfig_def perform_def
      exampleConfig_def exampleAuthCreate_def tryConnectInterval_def Let_def)

lemma exampleAgent_fields [simp]:
  "config exampleAgent = exampleConfig"
  "status exampleAgent = NotInitialized"
  "tryingConnectTimer exampleAgent = Some 30000"
  "completionCache exampleAgent = \<lparr>capacity = 100, entries = []\<rparr>"
  "auth exampleAgent = Some \<lparr>auth_endpoint = ''http://localhost:8080'', token = None, user = None\<rparr>"
  "api exampleAgent = Some \<lparr>BASE = ''http://localhost:8080'', TOKEN = None\<rparr>"
  by (simp_all add: exampleAgent_eq)

subsection \<open>The interval timer\<close>

text \<open>No method, continuation or callback assigns \<open>tryingConnectTimer\<close>.\<close>

lemma timer_callApi_settle [simp]:
  "tryingConnectTimer (snd (callApi_settle outcome s)) = tryingConnectTimer s"
  by (auto simp: callApi_settle_def split: Outcome.splits)

lemma timer_callApi [simp]:
  "tryingConnectTimer (snd (callApi call outcome s)) = tryingConnectTimer s"
  by (simp add: callApi_def callApi_issue_def)

lemma timer_healthCheck [simp]:
  "tryingConnectTimer (snd (healthCheck outcome s)) = tryingConnectTimer s"
proof -
  have "snd (healthCheck outcome s) = snd (callApi Health outcome s)"
    by (simp add: healthCheck_def split: prod.splits sum.splits)
  then show ?thesis by simp
qed

lemma timer_applyConfig [simp]:
  "tryingConnectTimer (applyConfig authCreate s) = tryingConnectTimer s"
  by (simp add: applyConfig_def Let_def)

lemma timer_updateConfig [simp]:
  "tryingConnectTimer (snd (updateConfig deepMerge deepEqual authCreate partial outcome s)) = tryingConnectTimer s"
  by (simp add: updateConfig_def Let_def)

lemma timer_initialize [simp]:
  "tryingConnectTimer (snd (initialize deepMerge deepEqual authCreate options outcome s)) = tryingConnectTimer s"
  by (simp add: initialize_def Let_def split: option.splits)

lemma timer_startAuth [simp]:
  "tryingConnectTimer (snd (startAuth outcome requested s)) = tryingConnectTimer s"
  by (simp add: startAuth_def Let_def)

lemma timer_getCompletions [simp]:
  "tryingConnectTimer (snd (getCompletions uuid request s)) = tryingConnectTimer s"
  by (simp add: getCompletions_def Let_def callApi_issue_def)

lemma timer_getCompletions_settle [simp]:
  "tryingConnectTimer (snd (getCompletions_settle postprocess request outcome s)) = tryingConnectTimer s"
proof (cases "callApi_settle outcome s")
  case (Pair res s')
  then have "tryingConnectTimer s' = tryingConnectTimer s"
    using timer_callApi_settle [of outcome s] by simp
  with Pair show ?thesis
    by (simp add: getCompletions_settle_def Let_def split: sum.splits)
qed

lemma timer_postEvent [simp]:
  "tryingConnectTimer (snd (postEvent request outcome s)) = tryingConnectTimer s"
proof (cases "callApi (Event request) outcome s")
  case (Pair res s')
  then have "tryingConnectTimer s' = tryingConnectTimer s"
    using timer_callApi [of "Event request" outcome s] by simp
  with Pair show ?thesis
    by (simp add: postEvent_def split: sum.splits)
qed

lemma timer_tick [simp]:
  "tryingConnectTimer (snd (tick outcome s)) = tryingConnectTimer s"
proof (cases "healthCheck outcome s")
  case (Pair res s')
  then have "tryingConnectTimer s' = tryingConnectTimer s"
    using timer_healthCheck [of outcome s] by simp
  with Pair show ?thesis
    by (simp add: tick_def split: sum.splits)
qed

lemma timer_step:
  "tryingConnectTimer (step deepMerge deepEqual authCreate postprocess operation s) = tryingConnectTimer s"
  by (cases operation) (simp_all add: step_def startAuth_cancel_def cancel_def onAuthUpdated_def Let_def split: Handle.splits)

lemma timer_run:
  "tryingConnectTimer (run deepMerge deepEqual authCreate postprocess ops s) = tryingConnectTimer s"
  by (induction ops arbitrary: s) (simp_all add: timer_step)

lemma timer_create: "tryingConnectTimer (create cfg cap authCreate store) = Some tryConnectInterval"
  by (simp add: create_def new_TabbyAgent_def)

subsection \<open>The status after a wrapped call\<close>

lemma status_callApi_settle:
  "status (snd (callApi_settle outcome s)) =
     (case outcome of
        Fulfilled response \<Rightarrow> Ready
      | Rejected error \<Rightarrow>
          if isCancelled error then status s
          else if name error = ''ApiError'' \<and> error_status error \<in> {Some 401, Some 403, Some 405}
            then Unauthorized
          else Disconnected)"
  by (auto simp: callApi_settle_def split: Outcome.splits)

text \<open>
  C1. Whatever call the wrapper makes and however it settles, the status afterwards
  follows the transition rule: a response gives Ready; a rejection flagged as cancelled
  leaves the status as it was; any other rejection named \<open>ApiError\<close> with status 401,
  403 or 405 gives Unauthorized; every remaining rejection gives Disconnected.
\<close>

theorem callApi_status_rule:
  "status (snd (callApi call outcome s)) =
     (case outcome of
        Fulfilled response \<Rightarrow> Ready
      | Rejected error \<Rightarrow>
          if isCancelled error then status s
          else if name error = ''ApiError'' \<and> error_status error \<in> {Some 401, Some 403, Some 405}
            then Unauthorized
          else Disconnected)
   \<and> status (snd (callApi_settle outcome (callApi_issue call s))) = status (snd (callApi call outcome s))
   \<and> fst (callApi call outcome s) =
       (case outcome of Fulfilled response \<Rightarrow> Inr response | Rejected error \<Rightarrow> Inl error)"
proof -
  have whole: "callApi call outcome s = callApi_settle outcome (callApi_issue call s)"
    by (simp add: callApi_def)
  have after: "status (snd (callApi_settle outcome (callApi_issue call s))) =
     (case outcome of
        Fulfilled response \<Rightarrow> Ready
      | Rejected error \<Rightarrow>
          if isCancelled error then status s
          else if name error = ''ApiError'' \<and> error_status error \<in> {Some 401, Some 403, Some 405}
            then Unauthorized
          else Disconnected)"
    by (cases outcome) (simp_all add: callApi_issue_def status_callApi_settle)
  have result: "fst (callApi_settle outcome (callApi_issue call s)) =
       (case outcome of Fulfilled response \<Rightarrow> Inr response | Rejected error \<Rightarrow> Inl error)"
    by (cases outcome) (simp_all add: callApi_settle_def)
  show ?thesis
    unfolding whole using after result by simp
qed

theorem callApi_status_rule_witness:
  "status (snd (callApi Health (Fulfilled ()) exampleAgent)) = Ready
   \<and> status (snd (callApi Health (Rejected cancelError :: unit Outcome) exampleAgent)) = NotInitialized
   \<and> status (snd (callApi Health (Rejected (apiError 401) :: unit Outcome) exampleAgent)) = Unauthorized
   \<and> status (snd (callApi Health (Rejected (apiError 500) :: unit Outcome) exampleAgent)) = Disconnected
   \<and> status (snd (callApi Health (Rejected networkError :: unit Outcome) exampleAgent)) = Disconnected"
  using callApi_status_rule [of Health "Fulfilled ()" exampleAgent]
    callApi_status_rule [of Health "Rejected cancelError :: unit Outcome" exampleAgent]
    callApi_status_rule [of Health "Rejected (apiError 401) :: unit Outcome" exampleAgent]
    callApi_status_rule [of Health "Rejected (apiError 500) :: unit Outcome" exampleAgent]
    callApi_status_rule [of Health "Rejected networkError :: unit Outcome" exampleAgent]
  by (simp add: exampleAgent_eq cancelError_def apiError_def networkError_def)

subsection \<open>The health probe\<close>

lemma snd_healthCheck: "snd (healthCheck outcome s) = snd (callApi Health outcome s)"
  by (simp add: healthCheck_def split: prod.splits sum.splits)

lemma fst_healthCheck:
  "fst (healthCheck outcome s) =
     (case outcome of Fulfilled response \<Rightarrow> Inr (Some response) | Rejected error \<Rightarrow> Inr None)"
  by (auto simp: healthCheck_def callApi_def callApi_settle_def split: Outcome.splits)

lemma frame_callApi_settle [simp]:
  "config (snd (callApi_settle outcome s)) = config s"
  "api (snd (callApi_settle outcome s)) = api s"
  "auth (snd (callApi_settle outcome s)) = auth s"
  "dataStore (snd (callApi_settle outcome s)) = dataStore s"
  "completionCache (snd (callApi_settle outcome s)) = completionCache s"
  by (auto simp: callApi_settle_def split: Outcome.splits)

lemma trace_callApi_settle:
  "trace (snd (callApi_settle outcome s)) =
     trace s @ (if status (snd (callApi_settle outcome s)) = status s then []
                else [Emit (StatusChanged (status (snd (callApi_settle outcome s))))])"
  by (auto simp: callApi_settle_def trace_changeStatus split: Outcome.splits)

lemma frame_healthCheck [simp]:
  "config (snd (healthCheck outcome s)) = config s"
  "api (snd (healthCheck outcome s)) = api s"
  "auth (snd (healthCheck outcome s)) = auth s"
  "dataStore (snd (healthCheck outcome s)) = dataStore s"
  "completionCache (snd (healthCheck outcome s)) = completionCache s"
  by (simp_all add: snd_healthCheck callApi_def callApi_issue_def)

lemma status_healthCheck:
  "status (snd (healthCheck outcome s)) =
     (case outcome of
        Fulfilled response \<Rightarrow> Ready
      | Rejected error \<Rightarrow>
          if isCancelled error then status s
          else if name error = ''ApiError'' \<and> error_status error \<in> {Some 401, Some 403, Some 405}
            then Unauthorized
          else Disconnected)"
  by (cases outcome) (simp_all add: snd_healthCheck callApi_def callApi_issue_def status_callApi_settle)

lemma trace_healthCheck:
  "trace (snd (healthCheck outcome s)) =
     trace s @ ApiRequest Health #
       (if status (snd (healthCheck outcome s)) = status s then []
        else [Emit (StatusChanged (status (snd (healthCheck outcome s))))])"
  using trace_callApi_settle [of outcome "callApi_issue Health s"]
  by (simp add: snd_healthCheck callApi_def callApi_issue_def)

lemma status_applyConfig [simp]: "status (applyConfig authCreate s) = status s"
  by (simp add: applyConfig_def Let_def)

lemma status_updateConfig:
  "status (snd (updateConfig deepMerge deepEqual authCreate partial outcome s)) =
     (case outcome of
        Fulfilled response \<Rightarrow> Ready
      | Rejected error \<Rightarrow>
          if isCancelled error then status s
          else if name error = ''ApiError'' \<and> error_status error \<in> {Some 401, Some 403, Some 405}
            then Unauthorized
          else Disconnected)"
  by (cases outcome) (simp_all add: updateConfig_def Let_def status_healthCheck)

subsection \<open>The API client is assigned\<close>

text \<open>
  The call wrapper reads \<open>this.api\<close> without a test. \<open>create\<close> assigns the client before
  it returns the agent, and nothing unassigns it afterwards.
\<close>

lemma api_applyConfig: "api (applyConfig authCreate s) \<noteq> None"
  by (simp add: applyConfig_def Let_def)

lemma api_getCompletions_settle:
  "api (snd (getCompletions_settle postprocess request outcome s)) = api s"
proof (cases "callApi_settle outcome s")
  case (Pair res s')
  then have "api s' = api s"
    using frame_callApi_settle(2) [of outcome s] by simp
  with Pair show ?thesis
    by (simp add: getCompletions_settle_def Let_def split: sum.splits)
qed

lemma api_postEvent: "api (snd (postEvent request outcome s)) = api s"
proof (cases "callApi_settle outcome (callApi_issue (Event request) s)")
  case (Pair res s')
  then have "api s' = api s"
    using frame_callApi_settle(2) [of outcome "callApi_issue (Event request) s"]
    by (simp add: callApi_issue_def)
  with Pair show ?thesis
    by (simp add: postEvent_def callApi_def split: sum.splits)
qed

lemma api_tick: "api (snd (tick outcome s)) = api s"
proof (cases "healthCheck outcome s")
  case (Pair res s')
  then have "api s' = api s"
    using frame_healthCheck(2) [of outcome s] by simp
  with Pair show ?thesis
    by (simp add: tick_def split: sum.splits)
qed

lemma api_step:
  assumes "api s \<noteq> None"
  shows "api (step deepMerge deepEqual authCreate postprocess operation s) \<noteq> None"
  using assms
  by (cases operation)
    (simp_all add: step_def initialize_def updateConfig_def startAuth_def startAuth_cancel_def
      getCompletions_def cancel_def onAuthUpdated_def callApi_issue_def api_applyConfig
      api_getCompletions_settle api_postEvent api_tick Let_def
      del: not_None_eq split: option.splits Handle.splits)

lemma api_run:
  "api s \<noteq> None \<Longrightarrow> api (run deepMerge deepEqual authCreate postprocess ops s) \<noteq> None"
  by (induction ops arbitrary: s) (simp_all add: api_step del: not_None_eq)

lemma api_assigned:
  "api (run deepMerge deepEqual authCreate postprocess ops (create defaultAgentConfig cap authCreate store)) \<noteq> None"
  by (simp add: api_run create_def api_applyConfig del: not_None_eq)

subsection \<open>Configuration updates\<close>

text \<open>
  C2. When the merge of a partial configuration into the current one is deep-equal to the
  current one, \<open>updateConfig\<close> does exactly what a health probe does: the agent afterwards
  is the agent after the probe alone. The configuration, the API client and the
  \<open>Auth\<close> session are the ones from before, and the trace grows by the health request
  and, when the probe changes the status, the \<open>"statusChanged"\<close> event: no client or
  session is created and no \<open>"configUpdated"\<close> is emitted.
\<close>

theorem updateConfig_unchanged:
  assumes "deepEqual (config s) (deepMerge (config s) partial)"
  shows "snd (updateConfig deepMerge deepEqual authCreate partial outcome s) = snd (healthCheck outcome s)
    \<and> config (snd (updateConfig deepMerge deepEqual authCreate partial outcome s)) = config s
    \<and> api (snd (updateConfig deepMerge deepEqual authCreate partial outcome s)) = api s
    \<and> auth (snd (updateConfig deepMerge deepEqual authCreate partial outcome s)) = auth s
    \<and> trace (snd (updateConfig deepMerge deepEqual authCreate partial outcome s)) =
        trace s @ ApiRequest Health #
          (if status (snd (updateConfig deepMerge deepEqual authCreate partial outcome s)) = status s then []
           else [Emit (StatusChanged (status (snd (updateConfig deepMerge deepEqual authCreate partial outcome s))))])"
proof -
  have same: "snd (updateConfig deepMerge deepEqual authCreate partial outcome s) = snd (healthCheck outcome s)"
    using assms by (simp add: updateConfig_def Let_def)
  show ?thesis
    unfolding same using trace_healthCheck [of outcome s] by simp
qed

theorem updateConfig_unchanged_witness:
  "exampleConfig = mergeEndpoint exampleConfig None
   \<and> snd (updateConfig mergeEndpoint (=) exampleAuthCreate None (Fulfilled ()) exampleAgent)
       = snd (healthCheck (Fulfilled ()) exampleAgent)
   \<and> config (snd (updateConfig mergeEndpoint (=) exampleAuthCreate None (Fulfilled ()) exampleAgent)) = exampleConfig
   \<and> trace (snd (updateConfig mergeEndpoint (=) exampleAuthCreate None (Fulfilled ()) exampleAgent))
       = trace exampleAgent @ [ApiRequest Health, Emit (StatusChanged Ready)]"
proof -
  have h: "config exampleAgent = mergeEndpoint (config exampleAgent) None"
    by (simp add: mergeEndpoint_def)
  have st: "status (snd (healthCheck (Fulfilled ()) exampleAgent)) = Ready"
    by (simp add: status_healthCheck)
  have same: "snd (updateConfig mergeEndpoint (=) exampleAuthCreate None (Fulfilled ()) exampleAgent)
      = snd (healthCheck (Fulfilled ()) exampleAgent)"
    using updateConfig_unchanged [of "(=)" exampleAgent mergeEndpoint None exampleAuthCreate "Fulfilled ()", OF h]
    by (rule conjunct1)
  have effects: "trace (snd (healthCheck (Fulfilled ()) exampleAgent))
      = trace exampleAgent @ [ApiRequest Health, Emit (StatusChanged Ready)]"
    using trace_healthCheck [of "Fulfilled ()" exampleAgent] st by simp
  show ?thesis
    unfolding same using effects by (simp add: mergeEndpoint_def)
qed

text \<open>
  C10. The boolean \<open>updateConfig\<close> returns says whether the status, after the merge and
  the final probe, differs from NotInitialized; the statement does not depend on
  whether the merged configuration was deep-equal to the current one.
\<close>

theorem updateConfig_result:
  "fst (updateConfig deepMerge deepEqual authCreate partial outcome s)
     = (status (snd (updateConfig deepMerge deepEqual authCreate partial outcome s)) \<noteq> NotInitialized)"
  by (simp add: updateConfig_def Let_def)

theorem updateConfig_result_witness:
  "fst (updateConfig mergeEndpoint (=) exampleAuthCreate None (Rejected cancelError :: unit Outcome) exampleAgent) = False
   \<and> fst (updateConfig mergeEndpoint (=) exampleAuthCreate None (Fulfilled ()) exampleAgent) = True
   \<and> fst (updateConfig mergeEndpoint (=) exampleAuthCreate (Some ''http://example.org'')
            (Rejected cancelError :: unit Outcome) exampleAgent) = False
   \<and> fst (updateConfig mergeEndpoint (=) exampleAuthCreate (Some ''http://example.org'')
            (Rejected (apiError 401) :: unit Outcome) exampleAgent) = True"
  using updateConfig_result [of mergeEndpoint "(=)" exampleAuthCreate None "Rejected cancelError :: unit Outcome" exampleAgent]
    updateConfig_result [of mergeEndpoint "(=)" exampleAuthCreate None "Fulfilled ()" exampleAgent]
    updateConfig_result [of mergeEndpoint "(=)" exampleAuthCreate "Some ''http://example.org''"
      "Rejected cancelError :: unit Outcome" exampleAgent]
    updateConfig_result [of mergeEndpoint "(=)" exampleAuthCreate "Some ''http://example.org''"
      "Rejected (apiError 401) :: unit Outcome" exampleAgent]
  by (simp add: status_updateConfig cancelError_def apiError_def)

subsection \<open>Completions before initialization\<close>

text \<open>
  C6. While the status is NotInitialized, \<open>getCompletions\<close> throws the error
  "Agent is not initialized" and returns the agent as it was: status, configuration and
  cache are untouched, and the trace gains no entry, so no request was issued and the
  cache was neither asked nor written.
\<close>

theorem getCompletions_notInitialized:
  assumes "status s = NotInitialized"
  shows "getCompletions uuid request s = (Inl (Error ''Agent is not initialized''), s)"
  using assms by (simp add: getCompletions_def)

theorem getCompletions_notInitialized_witness:
  "getCompletions ''0000'' \<lparr>text' = ''def f():'', position = 8, language = ''python''\<rparr> exampleAgent
     = (Inl (Error ''Agent is not initialized''), exampleAgent)"
  using getCompletions_notInitialized [of exampleAgent]
  by simp

subsection \<open>The timer callback\<close>

text \<open>
  C8. The period of the interval timer is 30 seconds (in milliseconds). On a tick, an
  agent that is not disconnected is left exactly as it was, and nothing is requested. A
  disconnected agent issues one health request; however it settles, the callback's
  promise is fulfilled (the failure is swallowed), the agent afterwards is the one the
  call wrapper leaves, and its status is the one the wrapper's rule gives: Ready on a
  response, Unauthorized on an \<open>ApiError\<close> with status 401, 403 or 405 that is not
  cancelled, and Disconnected, as before, otherwise.
\<close>

theorem tick_probe:
  "tryConnectInterval = 30 * 1000
   \<and> (status s \<noteq> Disconnected \<longrightarrow> tick outcome s = (Inr (), s))
   \<and> (status s = Disconnected \<longrightarrow>
        fst (tick outcome s) = Inr ()
        \<and> snd (tick outcome s) = snd (callApi Health outcome s)
        \<and> trace (snd (tick outcome s)) =
            trace s @ ApiRequest Health #
              (if status (snd (tick outcome s)) = Disconnected then []
               else [Emit (StatusChanged (status (snd (tick outcome s))))])
        \<and> status (snd (tick outcome s)) =
            (case outcome of
               Fulfilled response \<Rightarrow> Ready
             | Rejected error \<Rightarrow>
                 if isCancelled error then Disconnected
                 else if name error = ''ApiError'' \<and> error_status error \<in> {Some 401, Some 403, Some 405}
                   then Unauthorized
                 else Disconnected))"
proof (cases "status s = Disconnected")
  case True
  have "fst (healthCheck outcome s) \<noteq> Inl e" for e
    by (cases outcome) (simp_all add: fst_healthCheck)
  then have tk: "tick outcome s = (Inr (), snd (healthCheck outcome s))"
    using True by (cases "healthCheck outcome s") (auto simp: tick_def split: sum.splits)
  have result: "fst (tick outcome s) = Inr ()"
    by (simp add: tk)
  have probe: "snd (tick outcome s) = snd (callApi Health outcome s)"
    by (simp add: tk snd_healthCheck)
  have effects: "trace (snd (tick outcome s)) =
      trace s @ ApiRequest Health #
        (if status (snd (tick outcome s)) = Disconnected then []
         else [Emit (StatusChanged (status (snd (tick outcome s))))])"
    using trace_healthCheck [of outcome s] True by (simp add: tk)
  have after: "status (snd (tick outcome s)) =
      (case outcome of
         Fulfilled response \<Rightarrow> Ready
       | Rejected error \<Rightarrow>
           if isCancelled error then Disconnected
           else if name error = ''ApiError'' \<and> error_status error \<in> {Some 401, Some 403, Some 405}
             then Unauthorized
           else Disconnected)"
    using True status_healthCheck [of outcome s] probe by (cases outcome) (simp_all add: snd_healthCheck)
  from True result probe effects after show ?thesis
    by (simp add: tryConnectInterval_def)
next
  case False
  then show ?thesis by (simp add: tick_def tryConnectInterval_def)
qed

theorem tick_probe_witness:
  "tick (Fulfilled ()) exampleAgent = (Inr (), exampleAgent)
   \<and> fst (tick (Rejected networkError :: unit Outcome) (exampleAgent\<lparr>status := Disconnected\<rparr>)) = Inr ()
   \<and> status (snd (tick (Rejected networkError :: unit Outcome) (exampleAgent\<lparr>status := Disconnected\<rparr>))) = Disconnected
   \<and> trace (snd (tick (Rejected networkError :: unit Outcome) (exampleAgent\<lparr>status := Disconnected\<rparr>)))
       = trace exampleAgent @ [ApiRequest Health]
   \<and> status (snd (tick (Fulfilled ()) (exampleAgent\<lparr>status := Disconnected\<rparr>))) = Ready
   \<and> trace (snd (tick (Fulfilled ()) (exampleAgent\<lparr>status := Disconnected\<rparr>)))
       = trace exampleAgent @ [ApiRequest Health, Emit (StatusChanged Ready)]"
proof -
  have idle: "tick (Fulfilled ()) exampleAgent = (Inr (), exampleAgent)"
    using tick_probe [of exampleAgent "Fulfilled ()"] by simp
  have down: "status (exampleAgent\<lparr>status := Disconnected\<rparr>) = Disconnected"
    by simp
  note failing = tick_probe [of "exampleAgent\<lparr>status := Disconnected\<rparr>" "Rejected networkError :: unit Outcome",
      THEN conjunct2, THEN conjunct2, THEN mp, OF down]
  note working = tick_probe [of "exampleAgent\<lparr>status := Disconnected\<rparr>" "Fulfilled ()",
      THEN conjunct2, THEN conjunct2, THEN mp, OF down]
  have f1: "fst (tick (Rejected networkError :: unit Outcome) (exampleAgent\<lparr>status := Disconnected\<rparr>)) = Inr ()"
    using failing by (rule conjunct1)
  have f4: "status (snd (tick (Rejected networkError :: unit Outcome) (exampleAgent\<lparr>status := Disconnected\<rparr>))) = Disconnected"
    using failing [THEN conjunct2, THEN conjunct2, THEN conjunct2] by (simp add: networkError_def)
  have w4: "status (snd (tick (Fulfilled ()) (exampleAgent\<lparr>status := Disconnected\<rparr>))) = Ready"
    using working [THEN conjunct2, THEN conjunct2, THEN conjunct2] by simp
  have f3: "trace (snd (tick (Rejected networkError :: unit Outcome) (exampleAgent\<lparr>status := Disconnected\<rparr>)))
       = trace exampleAgent @ [ApiRequest Health]"
    using failing [THEN conjunct2, THEN conjunct2, THEN conjunct1] by (simp add: f4)
  have w3: "trace (snd (tick (Fulfilled ()) (exampleAgent\<lparr>status := Disconnected\<rparr>)))
       = trace exampleAgent @ [ApiRequest Health, Emit (StatusChanged Ready)]"
    using working [THEN conjunct2, THEN conjunct2, THEN conjunct1] by (simp add: w4)
  from idle f1 f3 f4 w3 w4 show ?thesis by simp
qed

subsection \<open>The context window\<close>

lemma concat_splitLines: "concat (splitLines s) = s"
  by (induction s) (auto split: list.splits)

lemma slice_prefix: "0 \<le> p \<Longrightarrow> slice 0 p xs = take (nat p) xs"
  by (simp add: slice_def Let_def min_def)

lemma slice_from_suffix: "0 \<le> p \<Longrightarrow> slice_from p xs = drop (nat p) xs"
  by (simp add: slice_from_def slice_def Let_def min_def)

lemma slice_from_last: "slice_from (max (int (length xs) - maxLines) 0) xs = drop (length xs - 20) xs"
proof -
  have "nat (max (int (length xs) - 20) 0) = length xs - 20"
    by simp
  then show ?thesis
    by (simp add: slice_from_suffix maxLines_def)
qed

lemma slice_first: "slice 0 maxLines xs = take 20 xs"
  by (simp add: slice_prefix maxLines_def)

lemma createSegments_eq:
  assumes "0 \<le> position request"
  shows "createSegments request =
    \<lparr>prefix = concat (drop (length (splitLines (take (nat (position request)) (text' request))) - 20)
                         (splitLines (take (nat (position request)) (text' request)))),
     suffix = concat (take 20 (splitLines (drop (nat (position request)) (text' request))))\<rparr>"
  using assms
  by (simp add: createSegments_def Let_def slice_prefix slice_from_suffix slice_from_last slice_first)

lemma concat_take_drop: "concat (take n xss) @ concat (drop n xss) = concat xss"
  by (metis append_take_drop_id concat_append)

text \<open>
  C4. For a position within the text, \<open>createSegments\<close> cuts the text at the position;
  the prefix is the concatenation of the last lines, at most 20, of the part before the
  cursor, and the suffix the concatenation of the first lines, at most 20, of the part
  after it. Since splitting into lines keeps the line endings, the part before the
  cursor is the lines left out followed by the prefix, and the part after it is the
  suffix followed by the lines left out: prefix and suffix lie next to each other in the
  text, around the cursor, with every line of the window present once.
\<close>

theorem createSegments_window:
  assumes "0 \<le> position request" and "position request \<le> int (length (text' request))"
  shows "let before = take (nat (position request)) (text' request);
             after = drop (nat (position request)) (text' request);
             beforeLines = splitLines before;
             afterLines = splitLines after;
             segments = createSegments request
         in length before = nat (position request)
            \<and> text' request = before @ after
            \<and> prefix segments = concat (drop (length beforeLines - 20) beforeLines)
            \<and> suffix segments = concat (take 20 afterLines)
            \<and> length (drop (length beforeLines - 20) beforeLines) = min 20 (length beforeLines)
            \<and> length (take 20 afterLines) = min 20 (length afterLines)
            \<and> before = concat (take (length beforeLines - 20) beforeLines) @ prefix segments
            \<and> after = suffix segments @ concat (drop 20 afterLines)
            \<and> text' request =
                concat (take (length beforeLines - 20) beforeLines) @ prefix segments
                  @ suffix segments @ concat (drop 20 afterLines)"
proof -
  define before where "before = take (nat (position request)) (text' request)"
  define after where "after = drop (nat (position request)) (text' request)"
  have whole: "text' request = before @ after"
    by (simp add: before_def after_def)
  have cut: "length before = nat (position request)"
    using assms by (simp add: before_def)
  have b: "before = concat (take (length (splitLines before) - 20) (splitLines before))
             @ concat (drop (length (splitLines before) - 20) (splitLines before))"
    by (simp add: concat_take_drop concat_splitLines)
  have a: "after = concat (take 20 (splitLines after)) @ concat (drop 20 (splitLines after))"
    by (simp add: concat_take_drop concat_splitLines)
  have seg: "createSegments request =
      \<lparr>prefix = concat (drop (length (splitLines before) - 20) (splitLines before)),
       suffix = concat (take 20 (splitLines after))\<rparr>"
    using assms(1) by (simp add: createSegments_eq before_def after_def)
  have w: "text' request =
      concat (take (length (splitLines before) - 20) (splitLines before))
        @ concat (drop (length (splitLines before) - 20) (splitLines before))
        @ concat (take 20 (splitLines after)) @ concat (drop 20 (splitLines after))"
    using whole a b by (metis append.assoc)
  show ?thesis
    unfolding Let_def before_def [symmetric] after_def [symmetric] seg
    using a b w cut whole by (simp add: min_def)
qed

lemma longRequest_range:
  "0 \<le> position longRequest" "position longRequest \<le> int (length (text' longRequest))"
  by code_simp+

lemma longRequest_segments:
  "createSegments longRequest =
     \<lparr>prefix = concat (replicate 19 [CHR ''a'', CHR 0x0A]) @ ''b'',
      suffix = ''c'' @ concat (replicate 19 [CHR 0x0A, CHR ''d'']) @ [CHR 0x0A]\<rparr>"
  by code_simp

lemma longRequest_lines:
  "length (splitLines (take (nat (position longRequest)) (text' longRequest))) = 23"
  "length (splitLines (drop (nat (position longRequest)) (text' longRequest))) = 23"
  by code_simp+

theorem createSegments_window_witness:
  "0 \<le> position longRequest \<and> position longRequest \<le> int (length (text' longRequest))
   \<and> length (splitLines (take (nat (position longRequest)) (text' longRequest))) = 23
   \<and> length (splitLines (drop (nat (position longRequest)) (text' longRequest))) = 23
   \<and> prefix (createSegments longRequest) = concat (replicate 19 [CHR ''a'', CHR 0x0A]) @ ''b''
   \<and> suffix (createSegments longRequest) = ''c'' @ concat (replicate 19 [CHR 0x0A, CHR ''d'']) @ [CHR 0x0A]
   \<and> (let before = take (nat (position longRequest)) (text' longRequest);
           after = drop (nat (position longRequest)) (text' longRequest);
           beforeLines = splitLines before;
           afterLines = splitLines after;
           segments = createSegments longRequest
       in length before = nat (position longRequest)
          \<and> text' longRequest = before @ after
          \<and> prefix segments = concat (drop (length beforeLines - 20) beforeLines)
          \<and> suffix segments = concat (take 20 afterLines)
          \<and> length (drop (length beforeLines - 20) beforeLines) = min 20 (length beforeLines)
          \<and> length (take 20 afterLines) = min 20 (length afterLines)
          \<and> before = concat (take (length beforeLines - 20) beforeLines) @ prefix segments
          \<and> after = suffix segments @ concat (drop 20 afterLines)
          \<and> text' longRequest =
              concat (take (length beforeLines - 20) beforeLines) @ prefix segments
                @ suffix segments @ concat (drop 20 afterLines))"
proof -
  have p: "prefix (createSegments longRequest) = concat (replicate 19 [CHR ''a'', CHR 0x0A]) @ ''b''"
    and q: "suffix (createSegments longRequest) = ''c'' @ concat (replicate 19 [CHR 0x0A, CHR ''d'']) @ [CHR 0x0A]"
    by (simp_all only: longRequest_segments Segments.simps)
  show ?thesis
    using createSegments_window [OF longRequest_range] longRequest_range longRequest_lines p q by blast
qed

subsection \<open>Blank prefixes\<close>

lemma isBlank_concat: "isBlank (concat xss) = (\<forall>xs \<in> set xss. isBlank xs)"
  by (induction xss) (simp_all add: isBlank_def)

lemma set_slice: "set (slice a b xs) \<subseteq> set xs"
proof -
  have "set (take n (drop m xs)) \<subseteq> set xs" for n m
    using set_take_subset [of n "drop m xs"] set_drop_subset [of m xs] by blast
  then show ?thesis
    by (simp add: slice_def Let_def)
qed

lemma isBlank_concat_slice:
  assumes "isBlank (concat xss)"
  shows "isBlank (concat (slice a b xss))" and "isBlank (concat (slice_from a xss))"
  using assms set_slice [of a b xss] set_slice [of a "int (length xss)" xss]
  by (auto simp: isBlank_concat slice_from_def)

lemma blank_before_blank_prefix:
  assumes "isBlank (slice 0 (position request) (text' request))"
  shows "isBlank (prefix (createSegments request))"
  using assms by (simp add: createSegments_def Let_def isBlank_concat_slice concat_splitLines)

text \<open>
  C5, as amended. For an agent that has left NotInitialized and a request that is not in
  the cache, when the windowed prefix is blank (in particular when the whole text before
  the cursor, \<open>text.slice(0, position)\<close>, is blank), \<open>getCompletions\<close> returns an already
  resolved promise of a response whose id is \<open>"agent-"\<close> followed by the string drawn
  from the uuid generator at this call and whose choices are empty. The trace gains the
  cache lookup and nothing else: no request is issued. Two such calls give the same
  response only when the generator gave the same string.
\<close>

theorem getCompletions_blank_prefix:
  assumes "status s \<noteq> NotInitialized"
    and "\<not> cache_has (completionCache s) request"
    and "isBlank (prefix (createSegments request))
         \<or> isBlank (slice 0 (position request) (text' request))"
  shows "getCompletions uuid request s =
           (Inr (Immediate (Some \<lparr>id' = ''agent-'' @ uuid, choices = []\<rparr>)), perform (CacheHas request) s)
         \<and> trace (snd (getCompletions uuid request s)) = trace s @ [CacheHas request]
         \<and> (fst (getCompletions uuid request s) = fst (getCompletions uuid' request s)) = (uuid = uuid')"
proof -
  have "isBlank (prefix (createSegments request))"
    using assms(3) blank_before_blank_prefix by blast
  with assms(1,2) show ?thesis
    by (simp add: getCompletions_def Let_def)
qed

lemma blankRequest_blank: "isBlank (slice 0 (position blankRequest) (text' blankRequest))"
  by code_simp

theorem getCompletions_blank_prefix_witness:
  "status readyAgent \<noteq> NotInitialized
   \<and> \<not> cache_has (completionCache readyAgent) blankRequest
   \<and> isBlank (slice 0 (position blankRequest) (text' blankRequest))
   \<and> getCompletions ''1b9d6bcd'' blankRequest readyAgent =
       (Inr (Immediate (Some \<lparr>id' = ''agent-1b9d6bcd'', choices = []\<rparr>)), perform (CacheHas blankRequest) readyAgent)
   \<and> trace (snd (getCompletions ''1b9d6bcd'' blankRequest readyAgent)) = trace readyAgent @ [CacheHas blankRequest]"
proof -
  have h1: "status readyAgent \<noteq> NotInitialized"
    by (simp add: readyAgent_def)
  have h2: "\<not> cache_has (completionCache readyAgent) blankRequest"
    by (simp add: readyAgent_def cache_has_def)
  have h3: "isBlank (prefix (createSegments blankRequest))
      \<or> isBlank (slice 0 (position blankRequest) (text' blankRequest))"
    using blankRequest_blank by simp
  have "getCompletions ''1b9d6bcd'' blankRequest readyAgent =
       (Inr (Immediate (Some \<lparr>id' = ''agent-'' @ ''1b9d6bcd'', choices = []\<rparr>)), perform (CacheHas blankRequest) readyAgent)"
    and "trace (snd (getCompletions ''1b9d6bcd'' blankRequest readyAgent)) = trace readyAgent @ [CacheHas blankRequest]"
    using getCompletions_blank_prefix [OF h1 h2 h3, of "''1b9d6bcd''"] by blast+
  with h1 h2 blankRequest_blank show ?thesis
    by simp
qed

text \<open>
  C5 without the condition on the status fails: for an agent that is still
  NotInitialized, a request that is not cached and whose windowed prefix is blank is
  answered by the error of the guard at the head of \<open>getCompletions\<close>, not by a
  response.
\<close>

theorem getCompletions_blank_prefix_counterexample:
  "\<not> cache_has (completionCache exampleAgent) blankRequest
   \<and> isBlank (prefix (createSegments blankRequest))
   \<and> getCompletions ''1b9d6bcd'' blankRequest exampleAgent
       = (Inl (Error ''Agent is not initialized''), exampleAgent)"
proof -
  have "isBlank (prefix (createSegments blankRequest))"
    by code_simp
  then show ?thesis
    by (simp add: getCompletions_def cache_has_def)
qed

subsection \<open>Cached completions\<close>

lemma cache_set_hit:
  assumes "0 < capacity c"
  shows "cache_get (cache_set c r v) r = Some v" and "cache_has (cache_set c r v) r"
proof -
  obtain n where "capacity c = Suc n"
    using assms by (cases "capacity c") simp_all
  then show "cache_get (cache_set c r v) r = Some v" and "cache_has (cache_set c r v) r"
    by (simp_all add: cache_get_def cache_has_def cache_set_def)
qed

lemma cache_getCompletions [simp]:
  "completionCache (snd (getCompletions uuid request s)) = completionCache s"
  by (simp add: getCompletions_def Let_def callApi_issue_def)

text \<open>
  C3. Suppose a call of \<open>getCompletions\<close> for a request went to the network, the request
  was answered, and the continuation stored the post-processed response (the cache
  keeping at least one entry). Then a second call for the same request returns an
  already resolved promise of that response; its trace entries are the two cache
  accesses, so no request is issued; and cancelling the returned promise changes
  nothing in any state of the agent.
\<close>

theorem getCompletions_cached:
  assumes "0 < capacity (completionCache s)"
    and "getCompletions uuid request s = (Inr (InFlight call), s1)"
    and "getCompletions_settle postprocess request (Fulfilled response) s1 = (Inr processed, s2)"
  shows "processed = postprocess request response
    \<and> getCompletions uuid' request s2 =
        (Inr (Immediate (Some processed)), perform (CacheGet request) (perform (CacheHas request) s2))
    \<and> trace (snd (getCompletions uuid' request s2)) = trace s2 @ [CacheHas request, CacheGet request]
    \<and> cancel (Immediate (Some processed)) s3 = s3"
proof -
  have cap: "0 < capacity (completionCache s1)"
    using assms(1) cache_getCompletions [of uuid request s] assms(2) by simp
  have p: "processed = postprocess request response"
    and s2: "s2 = perform (CacheSet request processed)
        ((changeStatus Ready s1)\<lparr>completionCache := cache_set (completionCache s1) request processed\<rparr>)"
    using assms(3) by (auto simp: getCompletions_settle_def callApi_settle_def Let_def)
  have st: "status s2 = Ready"
    by (simp add: s2)
  have hit: "cache_has (completionCache s2) request"
    and got: "cache_get (completionCache s2) request = Some processed"
    using cap by (simp_all add: s2 cache_set_hit)
  have second: "getCompletions uuid' request s2 =
      (Inr (Immediate (Some processed)), perform (CacheGet request) (perform (CacheHas request) s2))"
    using st hit got by (simp add: getCompletions_def Let_def)
  show ?thesis
    using p second by (simp add: cancel_def)
qed

theorem getCompletions_cached_witness:
  "0 < capacity (completionCache readyAgent)
   \<and> getCompletions ''0000'' exampleRequest readyAgent
       = (Inr (InFlight (Completion ''python'' \<lparr>prefix = ''def f():'', suffix = ''''\<rparr> None)), inFlightAgent)
   \<and> getCompletions_settle (\<lambda>request response. response) exampleRequest (Fulfilled exampleResponse) inFlightAgent
       = (Inr exampleResponse, cachedAgent)
   \<and> getCompletions ''0001'' exampleRequest cachedAgent
       = (Inr (Immediate (Some exampleResponse)), perform (CacheGet exampleRequest) (perform (CacheHas exampleRequest) cachedAgent))
   \<and> trace (snd (getCompletions ''0001'' exampleRequest cachedAgent))
       = trace cachedAgent @ [CacheHas exampleRequest, CacheGet exampleRequest]
   \<and> cancel (Immediate (Some exampleResponse)) (snd (getCompletions ''0001'' exampleRequest cachedAgent))
       = snd (getCompletions ''0001'' exampleRequest cachedAgent)"
proof -
  have h1: "0 < capacity (completionCache readyAgent)"
    by (simp add: readyAgent_def)
  have seg: "createSegments exampleRequest = \<lparr>prefix = ''def f():'', suffix = ''''\<rparr>"
    by (simp add: exampleRequest_def createSegments_eq)
  have h2: "getCompletions ''0000'' exampleRequest readyAgent
       = (Inr (InFlight (Completion ''python'' \<lparr>prefix = ''def f():'', suffix = ''''\<rparr> None)), inFlightAgent)"
    by (simp add: inFlightAgent_def getCompletions_def Let_def seg readyAgent_def cache_has_def
        isBlank_def isWhitespace_def) (simp add: exampleRequest_def)
  have h3: "getCompletions_settle (\<lambda>request response. response) exampleRequest (Fulfilled exampleResponse) inFlightAgent
       = (Inr exampleResponse, cachedAgent)"
    by (simp add: cachedAgent_def getCompletions_settle_def callApi_settle_def Let_def)
  show ?thesis
    using getCompletions_cached [OF h1 h2 h3, of "''0001''" "snd (getCompletions ''0001'' exampleRequest cachedAgent)"] h1 h2 h3
    by blast
qed

subsection \<open>No teardown of the timer\<close>

text \<open>
  C9, as amended. The constructor sets the interval timer and keeps its handle; after
  any run of operations on an agent that \<open>create\<close> returned, the handle is still the one
  of the running timer: the class has no operation that cancels it.
\<close>

theorem timer_never_cancelled: 
  "tryingConnectTimer (new_TabbyAgent defaultAgentConfig cap) = Some tryConnectInterval
   \<and> tryingConnectTimer
       (run deepMerge deepEqual authCreate postprocess ops (create defaultAgentConfig cap authCreate store))
      = Some tryConnectInterval"
  by (simp add: timer_run timer_create) (simp add: new_TabbyAgent_def)

theorem timer_never_cancelled_witness:
  "tryingConnectTimer
     (run mergeEndpoint (=) exampleAuthCreate (\<lambda>request response. response) exampleRun
        (create exampleConfig 100 exampleAuthCreate None))
   = Some 30000"
  using timer_never_cancelled [where deepMerge = mergeEndpoint and deepEqual = "(=)"
      and authCreate = exampleAuthCreate and postprocess = "\<lambda>request response. response"
      and ops = exampleRun and defaultAgentConfig = exampleConfig and cap = 100 and store = None]
  by (simp add: tryConnectInterval_def)

text \<open>
  C9 as first stated asks for a teardown path that cancels the timer. For the agent of
  the concrete inputs there is none: no run of operations ends with the timer's handle
  cleared.
\<close>

theorem timer_teardown_counterexample:
  "\<not> (\<exists>ops. tryingConnectTimer
        (run mergeEndpoint (=) exampleAuthCreate (\<lambda>request response. response) ops exampleAgent) = None)"
  by (simp add: timer_run)

end
